theory Spec2Isabelle
  imports Main "HOL-Library.Sublist" "HOL-Library.AList"
begin

section \<open>Python values and exceptions\<close>

text \<open>
  The back end of the service is Python. A Python \<open>str\<close> is modelled as a
  \<open>string\<close>, one \<open>char\<close> per character, and \<open>bytes\<close> likewise; an exception
  is the \<open>Inl\<close> branch of a sum type. The exceptions are those the modelled functions
  can raise, with the message where the source gives one.
\<close>

datatype py_error =
    RuntimeError string
  | Exception string
  | TypeError
  | KeyError string
  | AttributeError
  | NameError string
  | UnicodeDecodeError
  | ParseError
  | FileNotFoundError
  | FileExistsError
  | IsADirectoryError
  | IndexError
  | JobNotFound

text \<open>Parsed JSON or YAML: what \<open>json.loads\<close> and \<open>yaml.safe_load\<close> return. A
  \<open>dict\<close> keeps its insertion order, so it is an association list; its keys are
  distinct in every value a parser returns.\<close>

datatype json =
    JNull
  | JBool bool
  | JNum int
  | JStr string
  | JList "json list"
  | JObj "(string \<times> json) list"

text \<open>
  The functions of the Python library that the code calls on raw data: decoding and
  encoding UTF-8 (\<open>bytes.decode\<close>, \<open>bytes(s, 'utf-8')\<close>), the two parsers and the
  JSON serialiser. They are parameters of the model.
\<close>

record pylib =
  decode :: "string \<Rightarrow> py_error + string"
  encode :: "string \<Rightarrow> string"
  yaml_safe_load :: "string \<Rightarrow> py_error + json"
  json_loads :: "string \<Rightarrow> py_error + json"
  json_dumps :: "json \<Rightarrow> string"

section \<open>String operations of Python\<close>

text \<open>\<open>sub in s\<close> on strings.\<close>

fun py_in :: "string \<Rightarrow> string \<Rightarrow> bool" where
  "py_in sub [] = (sub = [])"
| "py_in sub (c # cs) = (prefix sub (c # cs) \<or> py_in sub cs)"



text \<open>\<open>s.split(sep)\<close> for a separator of one character, and \<open>sep.join(parts)\<close>.\<close>

fun py_split :: "char \<Rightarrow> string \<Rightarrow> string list" where
  "py_split sep [] = [[]]"
| "py_split sep (c # cs) =
     (if c = sep then [] # py_split sep cs
      else (case py_split sep cs of
              [] \<Rightarrow> [[c]]
            | part # parts \<Rightarrow> (c # part) # parts))"




text \<open>\<open>s.splitlines()\<close>: the lines of \<open>s\<close> without their line ends; a line ends at
  \<open>\n\<close>, \<open>\r\<close>, \<open>\r\n\<close>, \<open>\v\<close>, \<open>\f\<close>, the separators \<open>\x1c\<close> to \<open>\x1e\<close> and
  \<open>\x85\<close>. Text after the last line end is a line if it is not empty.\<close>

definition is_linebreak :: "char \<Rightarrow> bool" where
  "is_linebreak c =
     (let n = (of_char c :: nat) in (10 \<le> n \<and> n \<le> 13) \<or> (28 \<le> n \<and> n \<le> 30) \<or> n = 133)"

fun splitlines_from :: "string \<Rightarrow> string \<Rightarrow> string list" where
  "splitlines_from cur [] = (if cur = [] then [] else [cur])"
| "splitlines_from cur [c] = (if is_linebreak c then [cur] else [cur @ [c]])"
| "splitlines_from cur (c # d # cs) =
     (if c = CHR 0x0D \<and> d = CHR 0x0A then cur # splitlines_from [] cs
      else if is_linebreak c then cur # splitlines_from [] (d # cs)
      else splitlines_from (cur @ [c]) (d # cs))"

definition splitlines :: "string \<Rightarrow> string list" where
  "splitlines s = splitlines_from [] s"

section \<open>The remote file system\<close>

text \<open>
  The file-system library (cerulean) is not part of the repository. Its paths are
  modelled as the list of their segments below the root; \<open>p / s\<close> appends the segments
  of \<open>s\<close>, and \<open>str(p)\<close> writes the path with slashes.
\<close>

type_synonym path = "string list"

definition path_segments :: "string \<Rightarrow> string list" where
  "path_segments s = filter (\<lambda>x. x \<noteq> [] \<and> x \<noteq> ''.'') (py_split CHR ''/'' s)"

definition path_div :: "path \<Rightarrow> string \<Rightarrow> path" where
  "path_div p s = p @ path_segments s"


text \<open>The state of the remote file system: the directories that exist and the regular
  files with their contents. The root directory always exists.\<close>

record remote_fs =
  dirs :: "path set"
  files :: "path \<rightharpoonup> string"

definition is_dir :: "remote_fs \<Rightarrow> path \<Rightarrow> bool" where
  "is_dir fs p = (p = [] \<or> p \<in> dirs fs)"

definition path_exists :: "remote_fs \<Rightarrow> path \<Rightarrow> bool" where
  "path_exists fs p = (is_dir fs p \<or> files fs p \<noteq> None)"

text \<open>\<open>p.mkdir(mode, parents, exists_ok)\<close>. Without \<open>parents\<close> the parent directory
  must exist; with \<open>parents\<close> every missing ancestor is created as well. The mode is
  not modelled.\<close>

fun mkdir_parents :: "remote_fs \<Rightarrow> path \<Rightarrow> py_error + remote_fs" where
  "mkdir_parents fs [] = Inr fs"
| "mkdir_parents fs (seg # segs) =
     (let p = rev (seg # segs) in
      if is_dir fs p then Inr fs
      else if files fs p \<noteq> None then Inl FileExistsError
      else (case mkdir_parents fs segs of
              Inl e \<Rightarrow> Inl e
            | Inr fs' \<Rightarrow> Inr (fs'\<lparr>dirs := insert p (dirs fs')\<rparr>)))"

definition mkdir :: "remote_fs \<Rightarrow> path \<Rightarrow> bool \<Rightarrow> bool \<Rightarrow> py_error + remote_fs" where
  "mkdir fs p parents exists_ok =
     (if path_exists fs p then
        (if exists_ok \<and> is_dir fs p then Inr fs else Inl FileExistsError)
      else if parents then
        (case mkdir_parents fs (rev (butlast p)) of
           Inl e \<Rightarrow> Inl e
         | Inr fs' \<Rightarrow> Inr (fs'\<lparr>dirs := insert p (dirs fs')\<rparr>))
      else if is_dir fs (butlast p) then Inr (fs\<lparr>dirs := insert p (dirs fs)\<rparr>)
      else Inl FileNotFoundError)"

definition read_bytes :: "remote_fs \<Rightarrow> path \<Rightarrow> py_error + string" where
  "read_bytes fs p =
     (case files fs p of
        Some b \<Rightarrow> Inr b
      | None \<Rightarrow> if is_dir fs p then Inl IsADirectoryError else Inl FileNotFoundError)"

section \<open>Input resolver (\<open>cwl.py\<close>, \<open>input_file.py\<close>)\<close>

text \<open>
  The class \<open>InputFile\<close>. Its constructor sets \<open>name\<close>, \<open>location\<close>, \<open>content\<close> and
  \<open>secondary_files\<close>. The location is whatever value the binding holds under
  \<open>location\<close>. The attribute \<open>source\<close> is absent after construction;
  \<open>destage_job_output\<close> adds it.
\<close>

datatype InputFile =
  InputFile (name: "string option") (location: json) (content: "string option")
            (secondary_files: "InputFile list") (source: "path option")

text \<open>
  A call of the constructor. \<open>InputFile.__init__(self, name, location, content,
  secondary_files)\<close> has four parameters besides \<open>self\<close>; \<open>extra\<close> are the
  positional arguments a call passes beyond these four. Python raises a \<open>TypeError\<close>
  for a call with too many positional arguments, before the body runs.
\<close>

definition InputFile_init ::
  "string option \<Rightarrow> json \<Rightarrow> string option \<Rightarrow> InputFile list \<Rightarrow> nat list
     \<Rightarrow> py_error + InputFile" where
  "InputFile_init name' location' content' secondary_files' extra =
     (if extra \<noteq> [] then Inl TypeError
      else Inr (InputFile name' location' content' secondary_files' None))"

text \<open>
  \<open>get_secondary_files\<close>. The loop \<open>for value in secondary_files\<close> runs over the
  elements of a list. Over a dict it runs over the keys and over a string over its
  characters, all of them strings, for which the body does nothing; any other value is
  not iterable. \<open>secondary_files_loop\<close> is the loop over the remaining elements.
\<close>

function get_secondary_files :: "json \<Rightarrow> py_error + InputFile list"
  and secondary_files_loop :: "json list \<Rightarrow> py_error + InputFile list" where
  "get_secondary_files (JList vals) = secondary_files_loop vals"
| "get_secondary_files (JObj kvs) = Inr []"
| "get_secondary_files (JStr s) = Inr []"
| "get_secondary_files JNull = Inl TypeError"
| "get_secondary_files (JBool b) = Inl TypeError"
| "get_secondary_files (JNum n) = Inl TypeError"
| "secondary_files_loop [] = Inr []"
| "secondary_files_loop (JObj d # rest) =
     (if map_of d ''class'' = Some (JStr ''File'') then
        (case map_of d ''location'' of
           None \<Rightarrow> Inl (KeyError ''location'')
         | Some loc \<Rightarrow>
             (case (case map_of d ''secondaryFiles'' of
                      None \<Rightarrow> Inr []
                    | Some sf \<Rightarrow> get_secondary_files sf) of
                Inl e \<Rightarrow> Inl e
              | Inr sfs \<Rightarrow>
                  (case secondary_files_loop rest of
                     Inl e \<Rightarrow> Inl e
                   | Inr result \<Rightarrow> Inr (InputFile None loc None sfs None # result))))
      else if map_of d ''class'' = Some (JStr ''Directory'') then
        Inl (RuntimeError ''Directory inputs are not yet supported, sorry'')
      else
        Inl (RuntimeError ''Invalid secondaryFiles entry: must be a File or a Directory''))"
| "secondary_files_loop (JNull # rest) = secondary_files_loop rest"
| "secondary_files_loop (JBool b # rest) = secondary_files_loop rest"
| "secondary_files_loop (JNum n # rest) = secondary_files_loop rest"
| "secondary_files_loop (JStr s # rest) = secondary_files_loop rest"
| "secondary_files_loop (JList l # rest) = secondary_files_loop rest"
  by pat_completeness auto
termination
proof (relation "measure (\<lambda>x. case x of Inl v \<Rightarrow> size v | Inr vals \<Rightarrow> size_list size vals)",
       goal_cases)
  case (3 d rest loc sf)
  have "size v < size_list (size_prod (\<lambda>_. 0) size) d" if "map_of d k = Some v" for k v
    using that by (induction d) (auto split: if_splits)
  with 3 show ?case by fastforce
qed auto

text \<open>
  \<open>get_files_from_binding\<close>. \<open>binding_list_loop name i vals\<close> is the inner loop
  \<open>for i, val in enumerate(value)\<close> from position \<open>i\<close> on; its constructor call passes
  the position as a fifth argument. \<open>binding_items_loop\<close> is the outer loop over the
  items of the binding.
\<close>

definition is_file_object :: "json \<Rightarrow> bool" where
  "is_file_object v =
     (case v of JObj d \<Rightarrow> map_of d ''class'' = Some (JStr ''File'') | _ \<Rightarrow> False)"

definition py_getitem :: "json \<Rightarrow> string \<Rightarrow> py_error + json" where
  "py_getitem v k =
     (case v of
        JObj d \<Rightarrow> (case map_of d k of None \<Rightarrow> Inl (KeyError k) | Some x \<Rightarrow> Inr x)
      | _ \<Rightarrow> Inl TypeError)"

definition py_get :: "json \<Rightarrow> string \<Rightarrow> json \<Rightarrow> json" where
  "py_get v k dflt =
     (case v of
        JObj d \<Rightarrow> (case map_of d k of None \<Rightarrow> dflt | Some x \<Rightarrow> x)
      | _ \<Rightarrow> dflt)"

fun binding_list_loop :: "string \<Rightarrow> nat \<Rightarrow> json list \<Rightarrow> py_error + InputFile list" where
  "binding_list_loop name' i [] = Inr []"
| "binding_list_loop name' i (val # rest) =
     (if is_file_object val then
        (case get_secondary_files (py_get val ''secondaryFiles'' (JList [])) of
           Inl e \<Rightarrow> Inl e
         | Inr sfs \<Rightarrow>
             (case py_getitem val ''location'' of
                Inl e \<Rightarrow> Inl e
              | Inr loc \<Rightarrow>
                  (case InputFile_init (Some name') loc None sfs [i] of
                     Inl e \<Rightarrow> Inl e
                   | Inr input_file \<Rightarrow>
                       (case binding_list_loop name' (Suc i) rest of
                          Inl e \<Rightarrow> Inl e
                        | Inr result \<Rightarrow> Inr (input_file # result)))))
      else binding_list_loop name' (Suc i) rest)"

fun binding_items_loop :: "(string \<times> json) list \<Rightarrow> py_error + InputFile list" where
  "binding_items_loop [] = Inr []"
| "binding_items_loop ((name', value) # rest) =
     (if is_file_object value then
        (case get_secondary_files (py_get value ''secondaryFiles'' (JList [])) of
           Inl e \<Rightarrow> Inl e
         | Inr sfs \<Rightarrow>
             (case py_getitem value ''location'' of
                Inl e \<Rightarrow> Inl e
              | Inr loc \<Rightarrow>
                  (case InputFile_init (Some name') loc None sfs [] of
                     Inl e \<Rightarrow> Inl e
                   | Inr input_file \<Rightarrow>
                       (case binding_items_loop rest of
                          Inl e \<Rightarrow> Inl e
                        | Inr result \<Rightarrow> Inr (input_file # result)))))
      else (case value of
              JList vals \<Rightarrow>
                (case binding_list_loop name' 0 vals of
                   Inl e \<Rightarrow> Inl e
                 | Inr found \<Rightarrow>
                     (case binding_items_loop rest of
                        Inl e \<Rightarrow> Inl e
                      | Inr result \<Rightarrow> Inr (found @ result)))
            | _ \<Rightarrow> binding_items_loop rest))"

text \<open>A binding that is not \<open>None\<close> must have \<open>items()\<close>; only a dict has.\<close>

definition get_files_from_binding :: "json \<Rightarrow> py_error + InputFile list" where
  "get_files_from_binding cwl_binding =
     (case cwl_binding of
        JNull \<Rightarrow> Inr []
      | JObj items \<Rightarrow> binding_items_loop items
      | _ \<Rightarrow> Inl AttributeError)"

section \<open>Result classifier (\<open>cwl.py\<close>)\<close>

text \<open>
  Modelled from the spec: the enumeration \<open>JobState\<close> (\<open>cerise.job_store.job_state\<close>)
  is not among the sources. Its values are the states of the spec's job lifecycle.
\<close>

datatype JobState =
    SUBMITTED | STAGING_IN | WAITING | RUNNING | FINISHED | STAGING_OUT
  | SUCCESS | PERMANENT_FAILURE | TEMPORARY_FAILURE | SYSTEM_ERROR | CANCELLED
  | STAGING_IN_CR | WAITING_CR | RUNNING_CR | STAGING_OUT_CR

definition get_cwltool_result :: "string \<Rightarrow> JobState" where
  "get_cwltool_result cwltool_log =
     (if py_in ''Tool definition failed validation:'' cwltool_log then PERMANENT_FAILURE
      else if py_in ''Final process status is permanentFail'' cwltool_log then PERMANENT_FAILURE
      else if py_in ''Final process status is temporaryFail'' cwltool_log then TEMPORARY_FAILURE
      else if py_in ''Final process status is success'' cwltool_log then SUCCESS
      else SYSTEM_ERROR)"

section \<open>API installer and workflow translator (\<open>remote_api.py\<close>)\<close>

text \<open>What the constructors read from the configuration (\<open>cerise.config\<close>, not among
  the sources): the values of \<open>get_username('files')\<close> and \<open>get_basedir()\<close>.\<close>

record Config =
  get_username :: "string option"
  get_basedir :: path

record RemoteApi =
  api_username :: "string option"
  api_basedir :: path
  api_dir :: path

text \<open>\<open>RemoteApi.__init__\<close>: the API directory is \<open>basedir / 'api'\<close>, made with
  \<open>mkdir(0o750, parents=True, exists_ok=True)\<close>.\<close>

definition RemoteApi_init :: "remote_fs \<Rightarrow> Config \<Rightarrow> py_error + (remote_fs \<times> RemoteApi)" where
  "RemoteApi_init fs config =
     (let basedir = get_basedir config;
          api = path_div basedir ''api''
      in case mkdir fs api True True of
           Inl e \<Rightarrow> Inl e
         | Inr fs' \<Rightarrow>
             Inr (fs', \<lparr>api_username = get_username config, api_basedir = basedir,
                        api_dir = api\<rparr>))"

text \<open>\<open>_make_remote_project\<close>: \<open>mkdir(0o700, exists_ok=True)\<close>, without \<open>parents\<close>.\<close>

definition make_remote_project ::
  "remote_fs \<Rightarrow> RemoteApi \<Rightarrow> string \<Rightarrow> py_error + (remote_fs \<times> path)" where
  "make_remote_project fs self name' =
     (let remote_project_dir = path_div (api_dir self) name'
      in case mkdir fs remote_project_dir False True of
           Inl e \<Rightarrow> Inl e
         | Inr fs' \<Rightarrow> Inr (fs', remote_project_dir))"










section \<open>Staging and destaging (\<open>remote_job_files.py\<close>)\<close>

text \<open>
  Modelled from the spec: the class of a job record and the job store
  (\<open>cerise.job_store\<close>) are not among the sources. The fields are those of the spec's
  data model; \<open>debug_log\<close> holds the arguments of the calls of \<open>job.debug\<close>, oldest
  first. \<open>get_job\<close> fails when the store has no job of that id.
\<close>

record Job =
  job_id :: string
  job_name :: string
  workflow :: string
  local_input :: string
  local_output :: string
  remote_output :: string
  remote_error :: string
  state :: JobState
  remote_workdir_path :: string
  remote_workflow_path :: string
  remote_input_path :: string
  remote_stdout_path :: string
  remote_stderr_path :: string
  remote_system_out_path :: string
  remote_system_err_path :: string
  please_delete :: bool
  debug_log :: "string list list"

type_synonym job_store = "string \<rightharpoonup> Job"

definition get_job :: "job_store \<Rightarrow> string \<Rightarrow> py_error + Job" where
  "get_job store jid = (case store jid of None \<Rightarrow> Inl JobNotFound | Some job \<Rightarrow> Inr job)"

record RemoteJobFiles =
  username :: "string option"
  basedir :: path

definition abs_path :: "RemoteJobFiles \<Rightarrow> string \<Rightarrow> string \<Rightarrow> path" where
  "abs_path self jid rel_path =
     (let ret = path_div (path_div (basedir self) ''jobs'') jid
      in if rel_path \<noteq> [] then path_div ret rel_path else ret)"

text \<open>\<open>_read_remote_file\<close>: a missing file reads as no bytes.\<close>

definition read_remote_file ::
  "remote_fs \<Rightarrow> RemoteJobFiles \<Rightarrow> string \<Rightarrow> string \<Rightarrow> py_error + string" where
  "read_remote_file fs self jid rel_path =
     (case read_bytes fs (abs_path self jid rel_path) of
        Inl FileNotFoundError \<Rightarrow> Inr []
      | Inl e \<Rightarrow> Inl e
      | Inr b \<Rightarrow> Inr b)"

text \<open>\<open>update_job\<close>. The result is the job store after the call.\<close>

definition update_job ::
  "pylib \<Rightarrow> remote_fs \<Rightarrow> RemoteJobFiles \<Rightarrow> job_store \<Rightarrow> string \<Rightarrow> py_error + job_store" where
  "update_job L fs self store jid =
     (case get_job store jid of
        Inl e \<Rightarrow> Inl e
      | Inr job \<Rightarrow>
     (case read_remote_file fs self jid ''stdout.txt'' of
        Inl e \<Rightarrow> Inl e
      | Inr output \<Rightarrow>
     (case (if length output > 0
            then (case decode L output of
                    Inl e \<Rightarrow> Inl e
                  | Inr text \<Rightarrow> Inr (job\<lparr>remote_output := text\<rparr>))
            else Inr job) of
        Inl e \<Rightarrow> Inl e
      | Inr job1 \<Rightarrow>
     (case read_remote_file fs self jid ''stderr.txt'' of
        Inl e \<Rightarrow> Inl e
      | Inr log \<Rightarrow>
          if length log > 0 then
            (case decode L log of
               Inl e \<Rightarrow> Inl e
             | Inr text \<Rightarrow>
                 (let lines = splitlines text;
                      last_lines = splitlines (remote_error job1);
                      first_new_line = length last_lines
                  in Inr (store(jid \<mapsto>
                       job1\<lparr>debug_log := debug_log job1 @ [drop first_new_line lines],
                             remote_error := text\<rparr>))))
          else Inr (store(jid \<mapsto> job1))))))"





section \<open>Filename sanitizer (\<open>remote_job_files.py\<close>)\<close>

text \<open>The character class \<open>[a-zA-Z0-9_.-]\<close>.\<close>

definition allowed_char :: "char \<Rightarrow> bool" where
  "allowed_char c =
     (let n = (of_char c :: nat) in
      (97 \<le> n \<and> n \<le> 122) \<or> (65 \<le> n \<and> n \<le> 90) \<or> (48 \<le> n \<and> n \<le> 57)
      \<or> c = CHR ''_'' \<or> c = CHR ''.'' \<or> c = CHR ''-'')"

text \<open>\<open>re.compile('[^a-zA-Z0-9_.-]+').sub('_', s)\<close>: every maximal run of characters
  outside the class becomes one underscore.\<close>

function regex_sub :: "string \<Rightarrow> string" where
  "regex_sub [] = []"
| "regex_sub (c # cs) =
     (if allowed_char c then c # regex_sub cs
      else CHR ''_'' # regex_sub (dropWhile (\<lambda>x. \<not> allowed_char x) cs))"
  by pat_completeness auto
termination
  by (relation "measure length") (auto simp: less_Suc_eq_le length_dropWhile_le)

text \<open>The four calls \<open>result.replace(...)\<close> of the source discard their results
  (a Python string is immutable), so they change nothing and the model has no trace of
  them. A slice \<open>result[-18:]\<close> of a string longer than 18 is its last 18 characters.\<close>

definition create_input_filename :: "string \<Rightarrow> string \<Rightarrow> string" where
  "create_input_filename unique_prefix orig_path =
     (let result = regex_sub orig_path;
          result = (if length result > 39
                    then take 18 result @ ''___'' @ drop (length result - 18) result
                    else result)
      in unique_prefix @ ''_'' @ result)"

section \<open>Example data\<close>

text \<open>
  A concrete library and concrete inputs for the examples below. The example parser
  knows the documents of \<open>example_documents\<close> and rejects every other text; the example
  serialiser writes JSON as \<open>json.dumps\<close> does for values whose strings need no
  escaping. Decoding and encoding are the identity, as they are on ASCII.
\<close>

function show_nat :: "nat \<Rightarrow> string" where
  "show_nat n =
     (if n < 10 then [char_of (48 + n)]
      else show_nat (n div 10) @ [char_of (48 + n mod 10)])"
  by pat_completeness auto
termination
  by (relation "measure id") auto

fun example_dumps :: "json \<Rightarrow> string"
  and example_dumps_list :: "json list \<Rightarrow> string"
  and example_dumps_items :: "(string \<times> json) list \<Rightarrow> string" where
  "example_dumps JNull = ''null''"
| "example_dumps (JBool b) = (if b then ''true'' else ''false'')"
| "example_dumps (JNum n) = (if n < 0 then ''-'' else []) @ show_nat (nat \<bar>n\<bar>)"
| "example_dumps (JStr s) = [CHR 0x22] @ s @ [CHR 0x22]"
| "example_dumps (JList xs) = ''['' @ example_dumps_list xs @ '']''"
| "example_dumps (JObj kvs) = ''{'' @ example_dumps_items kvs @ ''}''"
| "example_dumps_list [] = []"
| "example_dumps_list [x] = example_dumps x"
| "example_dumps_list (x # y # xs) = example_dumps x @ '', '' @ example_dumps_list (y # xs)"
| "example_dumps_items [] = []"
| "example_dumps_items [(k, v)] = [CHR 0x22] @ k @ [CHR 0x22] @ '': '' @ example_dumps v"
| "example_dumps_items ((k, v) # kv # kvs) =
     [CHR 0x22] @ k @ [CHR 0x22] @ '': '' @ example_dumps v @ '', ''
       @ example_dumps_items (kv # kvs)"

definition example_workflow_text :: string where
  "example_workflow_text =
     ''{class: Workflow, steps: {step1: {run: projA/tool1.cwl}, step2: {run: projA/tool2.cwl}}}''"

definition example_workflow :: json where
  "example_workflow =
     JObj [(''class'', JStr ''Workflow''),
           (''steps'', JObj [(''step1'', JObj [(''run'', JStr ''projA/tool1.cwl'')]),
                            (''step2'', JObj [(''run'', JStr ''projA/tool2.cwl'')])])]"

definition example_outputs_text :: string where
  \<open>example_outputs_text =
     ''{"out": {"class": "File", "location": "file:///home/user/.cerise/jobs/job1/work/out.txt"}}''\<close>

definition example_outputs :: json where
  "example_outputs =
     JObj [(''out'', JObj [(''class'', JStr ''File''),
              (''location'', JStr ''file:///home/user/.cerise/jobs/job1/work/out.txt'')])]"

definition example_leaking_outputs_text :: string where
  \<open>example_leaking_outputs_text =
     ''{"out": {"class": "File", "location": "file:///home/user/.cerise/jobs/job1/work/out.txt"}, "leak": {"class": "File", "location": "file:///etc/passwd"}}''\<close>

definition example_leaking_outputs :: json where
  "example_leaking_outputs =
     JObj [(''out'', JObj [(''class'', JStr ''File''),
              (''location'', JStr ''file:///home/user/.cerise/jobs/job1/work/out.txt'')]),
           (''leak'', JObj [(''class'', JStr ''File''),
              (''location'', JStr ''file:///etc/passwd'')])]"

definition example_step_text :: string where
  "example_step_text =
     ''{class: CommandLineTool, baseCommand: $CERISE_API_FILES/bin/run $CERISE_API_FILES/cfg, arguments: [$CERISE_API_FILES/a:$CERISE_API_FILES/b]}''"

definition example_step :: json where
  "example_step =
     JObj [(''class'', JStr ''CommandLineTool''),
           (''baseCommand'', JStr ''$CERISE_API_FILES/bin/run $CERISE_API_FILES/cfg''),
           (''arguments'', JList [JStr ''$CERISE_API_FILES/a:$CERISE_API_FILES/b''])]"

definition example_documents :: "(string \<times> json) list" where
  "example_documents =
     [(example_workflow_text, example_workflow),
      (example_outputs_text, example_outputs),
      (example_leaking_outputs_text, example_leaking_outputs),
      (example_step_text, example_step)]"

definition example_load :: "string \<Rightarrow> py_error + json" where
  "example_load text =
     (case map_of example_documents text of None \<Rightarrow> Inl ParseError | Some doc \<Rightarrow> Inr doc)"

definition example_lib :: pylib where
  "example_lib =
     \<lparr>decode = Inr, encode = id, yaml_safe_load = example_load, json_loads = example_load,
      json_dumps = example_dumps\<rparr>"

definition example_config :: Config where
  "example_config = \<lparr>get_username = Some ''user'', get_basedir = [''home'', ''user'', ''.cerise'']\<rparr>"

definition example_api :: RemoteApi where
  "example_api =
     \<lparr>api_username = Some ''user'', api_basedir = [''home'', ''user'', ''.cerise''],
      api_dir = [''home'', ''user'', ''.cerise'', ''api'']\<rparr>"

definition example_job_files :: RemoteJobFiles where
  "example_job_files = \<lparr>username = Some ''user'', basedir = [''home'', ''user'', ''.cerise'']\<rparr>"

definition example_job :: Job where
  "example_job =
     \<lparr>job_id = ''job1'', job_name = ''example'', workflow = ''http://localhost/wf.cwl'',
      local_input = ''{}'', local_output = [], remote_output = [], remote_error = [],
      state = RUNNING,
      remote_workdir_path = ''/home/user/.cerise/jobs/job1/work'',
      remote_workflow_path = ''/home/user/.cerise/jobs/job1/workflow.cwl'',
      remote_input_path = ''/home/user/.cerise/jobs/job1/input.json'',
      remote_stdout_path = ''/home/user/.cerise/jobs/job1/stdout.txt'',
      remote_stderr_path = ''/home/user/.cerise/jobs/job1/stderr.txt'',
      remote_system_out_path = ''/home/user/.cerise/jobs/job1/sysout.txt'',
      remote_system_err_path = ''/home/user/.cerise/jobs/job1/syserr.txt'',
      please_delete = False, debug_log = []\<rparr>"

text \<open>A store holding the example job with the given remote output and error texts.\<close>

definition example_store :: "string \<Rightarrow> string \<Rightarrow> job_store" where
  "example_store out err =
     [''job1'' \<mapsto> example_job\<lparr>remote_output := out, remote_error := err\<rparr>]"

text \<open>A remote file system with the base directory and the job's directory, and the
  given contents of the job's \<open>stdout.txt\<close> and \<open>stderr.txt\<close> (\<open>None\<close>: no file).\<close>

definition example_fs :: "string option \<Rightarrow> string option \<Rightarrow> remote_fs" where
  "example_fs out err =
     \<lparr>dirs = {[''home''], [''home'', ''user''], [''home'', ''user'', ''.cerise''],
              [''home'', ''user'', ''.cerise'', ''jobs''],
              [''home'', ''user'', ''.cerise'', ''jobs'', ''job1'']},
      files = Map.empty
        ([''home'', ''user'', ''.cerise'', ''jobs'', ''job1'', ''stdout.txt''] := out,
         [''home'', ''user'', ''.cerise'', ''jobs'', ''job1'', ''stderr.txt''] := err)\<rparr>"

text \<open>A remote file system on which the base directory of \<open>example_config\<close> is missing.\<close>

definition example_fs_without_basedir :: remote_fs where
  "example_fs_without_basedir = \<lparr>dirs = {[''home'']}, files = Map.empty\<rparr>"



section \<open>Specification vocabulary\<close>

text \<open>What "the text contains the marker" means, independently of how it is computed.\<close>

definition contains :: "string \<Rightarrow> string \<Rightarrow> bool" where
  "contains s marker = (\<exists>before after. s = before @ marker @ after)"




text \<open>
  Texts with macros. A text is a list of pieces, each a literal text or a macro;
  \<open>fill f\<close> writes it out with \<open>f m\<close> in the place of every macro \<open>m\<close>, so
  \<open>fill macro_token\<close> is the text as the user wrote it. A piece is plain when it is a
  macro or a literal text without a dollar sign.
\<close>

datatype macro = CERISE_API | CERISE_USERNAME | CERISE_API_FILES







section \<open>Properties of the result classifier\<close>

lemma py_in_iff_contains: "py_in sub s \<longleftrightarrow> contains s sub"
proof (induction s)
  case Nil
  show ?case by (auto simp: contains_def)
next
  case (Cons c cs)
  have "contains (c # cs) sub \<longleftrightarrow> prefix sub (c # cs) \<or> contains cs sub"
  proof
    assume "contains (c # cs) sub"
    then obtain b a where eq: "c # cs = b @ sub @ a"
      by (auto simp: contains_def)
    show "prefix sub (c # cs) \<or> contains cs sub"
    proof (cases b)
      case Nil
      with eq show ?thesis by (auto simp: prefix_def)
    next
      case (Cons b0 bs)
      with eq have "cs = bs @ sub @ a" by simp
      then show ?thesis by (auto simp: contains_def)
    qed
  next
    assume "prefix sub (c # cs) \<or> contains cs sub"
    then show "contains (c # cs) sub"
    proof
      assume "prefix sub (c # cs)"
      then obtain a where "c # cs = [] @ sub @ a" by (auto simp: prefix_def)
      then show ?thesis unfolding contains_def by blast
    next
      assume "contains cs sub"
      then obtain b a where "cs = b @ sub @ a" by (auto simp: contains_def)
      then have "c # cs = (c # b) @ sub @ a" by simp
      then show ?thesis unfolding contains_def by blast
    qed
  qed
  with Cons show ?case by simp
qed

text \<open>
  Claim C5. For every log text, \<open>get_cwltool_result\<close> gives exactly one outcome, by
  strict priority: permanent failure if the text contains the tool-validation-failure
  marker or the permanentFail status marker; else temporary failure if it contains the
  temporaryFail status marker; else success if it contains the success status marker;
  else system error. In particular a log with both a validation-failure marker and a
  success marker is a permanent failure, and a log with none of the four markers is a
  system error.
\<close>

theorem get_cwltool_result_priority:
  "get_cwltool_result log =
     (if contains log ''Tool definition failed validation:''
         \<or> contains log ''Final process status is permanentFail'' then PERMANENT_FAILURE
      else if contains log ''Final process status is temporaryFail'' then TEMPORARY_FAILURE
      else if contains log ''Final process status is success'' then SUCCESS
      else SYSTEM_ERROR)
   \<and> (contains log ''Tool definition failed validation:''
          \<and> contains log ''Final process status is success''
        \<longrightarrow> get_cwltool_result log = PERMANENT_FAILURE)
   \<and> (\<not> contains log ''Tool definition failed validation:''
          \<and> \<not> contains log ''Final process status is permanentFail''
          \<and> \<not> contains log ''Final process status is temporaryFail''
          \<and> \<not> contains log ''Final process status is success''
        \<longrightarrow> get_cwltool_result log = SYSTEM_ERROR)"
  by (simp add: get_cwltool_result_def py_in_iff_contains)

theorem get_cwltool_result_priority_witness:
  "contains ''Tool definition failed validation: Final process status is success''
       ''Tool definition failed validation:''
   \<and> contains ''Tool definition failed validation: Final process status is success''
       ''Final process status is success''
   \<and> get_cwltool_result
        ''Tool definition failed validation: Final process status is success''
       = PERMANENT_FAILURE
   \<and> \<not> contains ''Killed'' ''Tool definition failed validation:''
   \<and> \<not> contains ''Killed'' ''Final process status is permanentFail''
   \<and> \<not> contains ''Killed'' ''Final process status is temporaryFail''
   \<and> \<not> contains ''Killed'' ''Final process status is success''
   \<and> get_cwltool_result ''Killed'' = SYSTEM_ERROR"
proof -
  have both:
    "contains ''Tool definition failed validation: Final process status is success''
       ''Tool definition failed validation:''"
    "contains ''Tool definition failed validation: Final process status is success''
       ''Final process status is success''"
    by (simp_all add: py_in_iff_contains [symmetric])
  have none:
    "\<not> contains ''Killed'' ''Tool definition failed validation:''"
    "\<not> contains ''Killed'' ''Final process status is permanentFail''"
    "\<not> contains ''Killed'' ''Final process status is temporaryFail''"
    "\<not> contains ''Killed'' ''Final process status is success''"
    by (simp_all add: py_in_iff_contains [symmetric])
  from both none
    get_cwltool_result_priority
      [of "''Tool definition failed validation: Final process status is success''"]
    get_cwltool_result_priority [of "''Killed''"]
  show ?thesis by blast
qed

section \<open>Properties of the filename sanitizer\<close>

lemma regex_sub_allowed: "set (regex_sub s) \<subseteq> {c. allowed_char c}"
proof (induction s rule: regex_sub.induct)
  case 1
  show ?case by simp
next
  case (2 c cs)
  then show ?case by (auto simp: allowed_char_def)
qed

text \<open>
  Claim C7. For the filename sanitizer: (1) two distinct counter strings of equal length
  and one original path give distinct filenames; (2) for a path whose collapsed form is
  longer than 39 characters, the part after the counter prefix is the first 18
  characters of the collapsed form, a fixed separator of 3 characters, and the last 18
  characters of the collapsed form.
\<close>

theorem create_input_filename_distinct_and_truncated:
  "(p1 \<noteq> p2 \<and> length p1 = length p2
      \<longrightarrow> create_input_filename p1 path \<noteq> create_input_filename p2 path)
   \<and> (39 < length (regex_sub path)
      \<longrightarrow> (\<exists>first middle last.
            regex_sub path = first @ middle @ last
          \<and> length first = 18 \<and> length last = 18
          \<and> create_input_filename p path = p @ ''_'' @ first @ ''___'' @ last))"
proof (intro conjI impI)
  assume "p1 \<noteq> p2 \<and> length p1 = length p2"
  then show "create_input_filename p1 path \<noteq> create_input_filename p2 path"
    by (simp add: create_input_filename_def Let_def)
next
  let ?r = "regex_sub path"
  assume long: "39 < length ?r"
  let ?first = "take 18 ?r"
  let ?last = "drop (length ?r - 18) ?r"
  let ?middle = "take (length ?r - 36) (drop 18 ?r)"
  have "drop 18 ?r = ?middle @ drop (length ?r - 36) (drop 18 ?r)"
    by (rule append_take_drop_id [symmetric])
  also have "drop (length ?r - 36) (drop 18 ?r) = ?last"
    using long by simp
  finally have "?r = ?first @ ?middle @ ?last"
    by (metis append_take_drop_id)
  moreover have "length ?first = 18" "length ?last = 18"
    using long by simp_all
  moreover have "create_input_filename p path = p @ ''_'' @ ?first @ ''___'' @ ?last"
    using long by (simp add: create_input_filename_def Let_def)
  ultimately show "\<exists>first middle last.
            regex_sub path = first @ middle @ last
          \<and> length first = 18 \<and> length last = 18
          \<and> create_input_filename p path = p @ ''_'' @ first @ ''___'' @ last"
    by blast
qed

theorem create_input_filename_distinct_and_truncated_witness:
  "''01'' \<noteq> ''02'' \<and> length ''01'' = length ''02''
   \<and> create_input_filename ''01'' ''file:///home/user/my data/input file (v2).txt''
       \<noteq> create_input_filename ''02'' ''file:///home/user/my data/input file (v2).txt''
   \<and> 39 < length (regex_sub ''file:///home/user/my data/input file (v2).txt'')
   \<and> create_input_filename ''01'' ''file:///home/user/my data/input file (v2).txt''
       = ''01_file_home_user_my____input_file_v2_.txt''"
proof -
  have r: "regex_sub ''file:///home/user/my data/input file (v2).txt''
             = ''file_home_user_my_data_input_file_v2_.txt''"
    by (simp add: allowed_char_def)
  have d: "''01'' \<noteq> ''02'' \<and> length ''01'' = length ''02''"
    by simp
  have l: "39 < length (regex_sub ''file:///home/user/my data/input file (v2).txt'')"
    unfolding r by simp
  from create_input_filename_distinct_and_truncated
         [of "''01''" "''02''" "''file:///home/user/my data/input file (v2).txt''" "''01''"]
       d l
  have ne: "create_input_filename ''01'' ''file:///home/user/my data/input file (v2).txt''
       \<noteq> create_input_filename ''02'' ''file:///home/user/my data/input file (v2).txt''"
    by blast
  have v: "create_input_filename ''01'' ''file:///home/user/my data/input file (v2).txt''
       = ''01_file_home_user_my____input_file_v2_.txt''"
    unfolding create_input_filename_def r by simp
  from d ne l v show ?thesis by blast
qed

section \<open>Properties of the input resolver\<close>

text \<open>The inner loop of \<open>get_files_from_binding\<close> returns only when the list holds no
  File object, and then it returns no files: the constructor call for a File element
  of a list passes five arguments.\<close>

lemma binding_list_loop_returns_nothing:
  "binding_list_loop n i vals = Inr found \<Longrightarrow> found = [] \<and> (\<forall>v\<in>set vals. \<not> is_file_object v)"
  by (induction vals arbitrary: i found)
     (auto simp: InputFile_init_def split: if_splits sum.splits)

text \<open>
  Claim C1. A top-level list value of a binding is scanned positionally and every
  File-class element yields an InputFile with the binding key as name and the
  element's position as index; the binding
  \<open>{"a": File f1, "b": [File f2, File f3]}\<close> yields three InputFile entries.
  The code does not do this: on that binding the constructor call for the first
  File element of the list raises a \<open>TypeError\<close>, and the function returns nothing.
\<close>

theorem get_files_from_binding_list_of_files_raises:
  "get_files_from_binding
     (JObj [(''a'', JObj [(''class'', JStr ''File''), (''location'', JStr ''f1'')]),
            (''b'', JList [JObj [(''class'', JStr ''File''), (''location'', JStr ''f2'')],
                           JObj [(''class'', JStr ''File''), (''location'', JStr ''f3'')]])])
   = Inl TypeError"
  by (simp add: get_files_from_binding_def is_file_object_def py_get_def py_getitem_def
        InputFile_init_def)

text \<open>An entry of a secondaryFiles list that is a dict is never dropped: when the
  function returns, every such entry was a File.\<close>

lemma secondary_files_loop_checks_objects:
  "secondary_files_loop vals = Inr result \<Longrightarrow> JObj d \<in> set vals
     \<Longrightarrow> map_of d ''class'' = Some (JStr ''File'')"
proof (induction vals arbitrary: result)
  case Nil
  then show ?case by simp
next
  case (Cons v vals)
  show ?case
  proof (cases v)
    case (JObj d')
    with Cons show ?thesis
      by (auto split: if_splits option.splits sum.splits)
  qed (use Cons in auto)
qed

text \<open>
  Claim C6. \<open>get_secondary_files\<close> raises on a Directory entry anywhere in the list,
  and raises a validation error on any entry that is neither a File nor a Directory
  object; no such entry is silently dropped. The code drops every entry that is not a
  dict: a list holding the string \<open>reads.bam.bai\<close> gives no file and no error, also
  next to a File entry, which is kept.
\<close>

theorem get_secondary_files_drops_non_object_entry:
  "get_secondary_files (JList [JStr ''reads.bam.bai'']) = Inr []
   \<and> get_secondary_files
         (JList [JStr ''reads.bam.bai'',
                 JObj [(''class'', JStr ''File''), (''location'', JStr ''reads.idx'')]])
       = Inr [InputFile None (JStr ''reads.idx'') None [] None]"
  by simp

section \<open>Properties of destaging\<close>










section \<open>Properties of \<open>update_job\<close>\<close>

lemma read_remote_file_missing:
  "\<not> path_exists fs (abs_path self jid rel_path) \<Longrightarrow> read_remote_file fs self jid rel_path = Inr []"
  by (simp add: read_remote_file_def read_bytes_def path_exists_def)

lemma read_remote_file_empty:
  "files fs (abs_path self jid rel_path) = Some [] \<Longrightarrow> read_remote_file fs self jid rel_path = Inr []"
  by (simp add: read_remote_file_def read_bytes_def)

lemma update_job_stdout_empty:
  assumes "get_job store jid = Inr job" and "read_remote_file fs self jid ''stdout.txt'' = Inr []"
  shows "update_job L fs self store jid =
     (case read_remote_file fs self jid ''stderr.txt'' of
        Inl e \<Rightarrow> Inl e
      | Inr log \<Rightarrow>
          if length log > 0 then
            (case decode L log of
               Inl e \<Rightarrow> Inl e
             | Inr text \<Rightarrow>
                 Inr (store(jid \<mapsto>
                   job\<lparr>debug_log := debug_log job
                           @ [drop (length (splitlines (remote_error job))) (splitlines text)],
                       remote_error := text\<rparr>)))
          else Inr (store(jid \<mapsto> job)))"
  using assms by (simp add: update_job_def Let_def split: sum.splits)

lemma update_job_stderr_empty:
  assumes "get_job store jid = Inr job" and "read_remote_file fs self jid ''stderr.txt'' = Inr []"
  shows "update_job L fs self store jid =
     (case read_remote_file fs self jid ''stdout.txt'' of
        Inl e \<Rightarrow> Inl e
      | Inr output \<Rightarrow>
          if length output > 0 then
            (case decode L output of
               Inl e \<Rightarrow> Inl e
             | Inr text \<Rightarrow> Inr (store(jid \<mapsto> job\<lparr>remote_output := text\<rparr>)))
          else Inr (store(jid \<mapsto> job)))"
  using assms by (simp add: update_job_def split: sum.splits)

text \<open>
  Claim C10. If the remote stdout file is missing or empty when \<open>update_job\<close> runs,
  the stored remote output is left unchanged, and if the remote stderr file is missing
  or empty, the stored remote error is left unchanged; reading a missing remote file
  gives empty bytes and does not raise; so polling a job before the runner has written
  anything neither raises nor changes the output and error fields of the job record
  (it changes nothing of the store at all).
\<close>

theorem update_job_without_remote_output:
  assumes "get_job store jid = Inr job"
  shows
    "(\<not> path_exists fs (abs_path self jid rel_path)
        \<longrightarrow> read_remote_file fs self jid rel_path = Inr [])
     \<and> ((\<not> path_exists fs (abs_path self jid ''stdout.txt'')
           \<or> files fs (abs_path self jid ''stdout.txt'') = Some [])
          \<and> update_job L fs self store jid = Inr store'
        \<longrightarrow> (\<exists>job'. store' jid = Some job' \<and> remote_output job' = remote_output job))
     \<and> ((\<not> path_exists fs (abs_path self jid ''stderr.txt'')
           \<or> files fs (abs_path self jid ''stderr.txt'') = Some [])
          \<and> update_job L fs self store jid = Inr store'
        \<longrightarrow> (\<exists>job'. store' jid = Some job' \<and> remote_error job' = remote_error job))
     \<and> ((\<not> path_exists fs (abs_path self jid ''stdout.txt'')
           \<or> files fs (abs_path self jid ''stdout.txt'') = Some [])
          \<and> (\<not> path_exists fs (abs_path self jid ''stderr.txt'')
           \<or> files fs (abs_path self jid ''stderr.txt'') = Some [])
        \<longrightarrow> update_job L fs self store jid = Inr store)"
proof (intro conjI impI, goal_cases)
  case 1
  then show ?case by (rule read_remote_file_missing)
next
  case 2
  then have "read_remote_file fs self jid ''stdout.txt'' = Inr []"
    using read_remote_file_missing read_remote_file_empty by blast
  from update_job_stdout_empty [OF assms this, of L] 2 show ?case
    by (auto split: sum.splits if_splits)
next
  case 3
  then have "read_remote_file fs self jid ''stderr.txt'' = Inr []"
    using read_remote_file_missing read_remote_file_empty by blast
  from update_job_stderr_empty [OF assms this, of L] 3 show ?case
    by (auto split: sum.splits if_splits)
next
  case 4
  then have "read_remote_file fs self jid ''stdout.txt'' = Inr []"
    "read_remote_file fs self jid ''stderr.txt'' = Inr []"
    using read_remote_file_missing read_remote_file_empty by blast+
  moreover have "store(jid \<mapsto> job) = store"
    using assms by (auto simp: get_job_def fun_upd_idem split: option.splits)
  ultimately show ?case
    using update_job_stdout_empty [OF assms, of fs self L] by simp
qed

lemma example_abs_path:
  "abs_path example_job_files ''job1'' ''stdout.txt''
     = [''home'', ''user'', ''.cerise'', ''jobs'', ''job1'', ''stdout.txt'']"
  "abs_path example_job_files ''job1'' ''stderr.txt''
     = [''home'', ''user'', ''.cerise'', ''jobs'', ''job1'', ''stderr.txt'']"
  by (simp_all add: abs_path_def example_job_files_def path_div_def path_segments_def)

theorem update_job_without_remote_output_witness:
  "\<not> path_exists (example_fs None (Some [])) (abs_path example_job_files ''job1'' ''stdout.txt'')
   \<and> files (example_fs None (Some [])) (abs_path example_job_files ''job1'' ''stderr.txt'') = Some []
   \<and> read_remote_file (example_fs None (Some [])) example_job_files ''job1'' ''stdout.txt'' = Inr []
   \<and> update_job example_lib (example_fs None (Some [])) example_job_files
         (example_store ''old output'' ''old error'') ''job1''
       = Inr (example_store ''old output'' ''old error'')"
proof -
  have missing:
    "\<not> path_exists (example_fs None (Some [])) (abs_path example_job_files ''job1'' ''stdout.txt'')"
    by (simp add: example_abs_path example_fs_def path_exists_def is_dir_def)
  have empty:
    "files (example_fs None (Some [])) (abs_path example_job_files ''job1'' ''stderr.txt'') = Some []"
    by (simp add: example_abs_path example_fs_def)
  have job: "get_job (example_store ''old output'' ''old error'') ''job1''
      = Inr (example_job\<lparr>remote_output := ''old output'', remote_error := ''old error''\<rparr>)"
    by (simp add: example_store_def get_job_def)
  from update_job_without_remote_output
         [OF job, of "example_fs None (Some [])" example_job_files "''stdout.txt''" example_lib]
       missing empty
  show ?thesis by blast
qed

text \<open>What one call of \<open>update_job\<close> does to the job when both remote files can be
  read and decoded: the output is replaced when the stdout file is not empty, and the
  error text is replaced by the whole stderr file when that is not empty.\<close>

lemma update_job_with_log:
  assumes "get_job store jid = Inr job"
    and "read_remote_file fs self jid ''stdout.txt'' = Inr output"
    and "output = [] \<or> decode L output = Inr otext"
    and "read_remote_file fs self jid ''stderr.txt'' = Inr log"
    and "log \<noteq> []"
    and "decode L log = Inr text"
  shows "update_job L fs self store jid =
     Inr (store(jid \<mapsto>
       job\<lparr>remote_output := (if output = [] then remote_output job else otext),
           debug_log := debug_log job
             @ [drop (length (splitlines (remote_error job))) (splitlines text)],
           remote_error := text\<rparr>))"
proof (cases "output = []")
  case True
  with assms show ?thesis by (simp add: update_job_def Let_def)
next
  case False
  with assms show ?thesis by (simp add: update_job_def Let_def)
qed

text \<open>
  Claim C4. For every job and every call of \<open>update_job\<close>, the stored remote error
  text is only ever extended: the text stored before is a prefix of the text stored
  afterwards, only the lines beyond the stored line count are processed, and repeated
  polling against an unchanged stderr file neither duplicates nor reprocesses lines.
  As amended: a call that finds a stderr file that is not empty replaces the stored
  text by the whole decoded file; so the text stored before is a prefix of the text
  stored afterwards whenever it is a prefix of the file's text, that is, when the file
  has only grown. The lines passed to the job's log are the file's lines beyond the
  line count of the stored text, and a second call against the unchanged file passes
  no line and leaves the stored text as it is.
\<close>

theorem update_job_remote_error_follows_file:
  assumes "get_job store jid = Inr job"
    and "read_remote_file fs self jid ''stdout.txt'' = Inr output"
    and "output = [] \<or> decode L output = Inr otext"
    and "read_remote_file fs self jid ''stderr.txt'' = Inr log"
    and "log \<noteq> []"
    and "decode L log = Inr text"
  shows "\<exists>store' job'.
           update_job L fs self store jid = Inr store'
         \<and> get_job store' jid = Inr job'
         \<and> remote_error job' = text
         \<and> (prefix (remote_error job) text \<longrightarrow> prefix (remote_error job) (remote_error job'))
         \<and> debug_log job'
              = debug_log job @ [drop (length (splitlines (remote_error job))) (splitlines text)]
         \<and> (\<exists>store'' job''.
                update_job L fs self store' jid = Inr store''
              \<and> get_job store'' jid = Inr job''
              \<and> remote_error job'' = remote_error job'
              \<and> debug_log job'' = debug_log job' @ [[]])"
proof -
  let ?job' = "job\<lparr>remote_output := (if output = [] then remote_output job else otext),
           debug_log := debug_log job
             @ [drop (length (splitlines (remote_error job))) (splitlines text)],
           remote_error := text\<rparr>"
  let ?store' = "store(jid \<mapsto> ?job')"
  have first: "update_job L fs self store jid = Inr ?store'"
    using assms by (rule update_job_with_log)
  have got: "get_job ?store' jid = Inr ?job'"
    by (simp add: get_job_def)
  let ?job'' = "?job'\<lparr>remote_output := (if output = [] then remote_output ?job' else otext),
           debug_log := debug_log ?job'
             @ [drop (length (splitlines (remote_error ?job'))) (splitlines text)],
           remote_error := text\<rparr>"
  have second: "update_job L fs self ?store' jid = Inr (?store'(jid \<mapsto> ?job''))"
    using got assms(2-6) by (rule update_job_with_log)
  have got2: "get_job (?store'(jid \<mapsto> ?job'')) jid = Inr ?job''"
    by (simp add: get_job_def)
  have e1: "remote_error ?job' = text" by simp
  have e2: "remote_error ?job'' = remote_error ?job'" by simp
  have d1: "debug_log ?job'
      = debug_log job @ [drop (length (splitlines (remote_error job))) (splitlines text)]"
    by simp
  have d2: "debug_log ?job'' = debug_log ?job' @ [[]]" by simp
  from first got second got2 e1 e2 d1 d2 show ?thesis
    by (metis)
qed

lemma example_read_remote_file:
  "read_remote_file (example_fs out err) example_job_files ''job1'' ''stdout.txt''
     = Inr (case out of None \<Rightarrow> [] | Some b \<Rightarrow> b)"
  "read_remote_file (example_fs out err) example_job_files ''job1'' ''stderr.txt''
     = Inr (case err of None \<Rightarrow> [] | Some b \<Rightarrow> b)"
  by (simp_all add: read_remote_file_def read_bytes_def example_abs_path example_fs_def
        is_dir_def split: option.splits)

theorem update_job_remote_error_follows_file_witness:
  "prefix ''line one'' (''line one'' @ [CHR 0x0A] @ ''line two'')
   \<and> (\<exists>store' job'.
         update_job example_lib (example_fs None (Some (''line one'' @ [CHR 0x0A] @ ''line two'')))
           example_job_files (example_store [] ''line one'') ''job1'' = Inr store'
       \<and> get_job store' ''job1'' = Inr job'
       \<and> remote_error job' = ''line one'' @ [CHR 0x0A] @ ''line two''
       \<and> prefix ''line one'' (remote_error job')
       \<and> debug_log job' = [[''line two'']])"
proof -
  let ?fs = "example_fs None (Some (''line one'' @ [CHR 0x0A] @ ''line two''))"
  have job: "get_job (example_store [] ''line one'') ''job1''
      = Inr (example_job\<lparr>remote_output := [], remote_error := ''line one''\<rparr>)"
    by (simp add: example_store_def get_job_def)
  have out: "read_remote_file ?fs example_job_files ''job1'' ''stdout.txt'' = Inr []"
    by (simp add: example_read_remote_file)
  have err: "read_remote_file ?fs example_job_files ''job1'' ''stderr.txt''
      = Inr (''line one'' @ [CHR 0x0A] @ ''line two'')"
    by (simp add: example_read_remote_file)
  have dec: "decode example_lib (''line one'' @ [CHR 0x0A] @ ''line two'')
      = Inr (''line one'' @ [CHR 0x0A] @ ''line two'')"
    by (simp add: example_lib_def)
  have lines: "drop (length (splitlines ''line one''))
                 (splitlines (''line one'' @ [CHR 0x0A] @ ''line two'')) = [''line two'']"
    by (simp add: splitlines_def is_linebreak_def)
  have grown: "prefix ''line one'' (''line one'' @ [CHR 0x0A] @ ''line two'')"
    by simp
  from update_job_remote_error_follows_file [OF job out _ err _ dec, of "[]"] grown lines
  show ?thesis
    by (auto simp: example_job_def)
qed

text \<open>The claim as stated fails when the stderr file does not start with the stored
  text: the stored text \<open>Starting job\<close> is replaced by the file's text \<open>Killed\<close>, and
  no line of the file is passed to the job's log.\<close>

theorem update_job_remote_error_truncated_counterexample:
  "update_job example_lib (example_fs None (Some ''Killed'')) example_job_files
       (example_store [] ''Starting job'') ''job1''
     = Inr [''job1'' \<mapsto> example_job\<lparr>remote_error := ''Killed'', debug_log := [[]]\<rparr>]
   \<and> \<not> prefix ''Starting job'' ''Killed''"
  by (simp add: update_job_def get_job_def example_store_def example_read_remote_file
        example_lib_def splitlines_def is_linebreak_def example_job_def)

section \<open>Properties of the API installer\<close>

text \<open>With \<open>parents\<close>, making a directory succeeds when no regular file is in the way,
  and makes every missing ancestor.\<close>

lemma mkdir_parents_creates:
  "\<forall>k. files fs (rev (drop k rp)) = None \<Longrightarrow>
   \<exists>fs'. mkdir_parents fs rp = Inr fs' \<and> is_dir fs' (rev rp) \<and> files fs' = files fs"
proof (induction rp)
  case Nil
  then show ?case by (simp add: is_dir_def)
next
  case (Cons seg segs)
  from Cons.prems have here: "files fs (rev (seg # segs)) = None"
    by (metis drop0)
  from Cons.prems have "\<forall>k. files fs (rev (drop k segs)) = None"
    by (metis drop_Suc_Cons)
  with Cons.IH obtain fs1 where fs1: "mkdir_parents fs segs = Inr fs1" "files fs1 = files fs"
    by blast
  with here show ?case
    by (auto simp: Let_def is_dir_def)
qed

lemma RemoteApi_init_creates_basedir:
  assumes "\<not> path_exists fs (get_basedir config @ [''api''])"
    and "\<forall>k. files fs (take k (get_basedir config)) = None"
  shows "\<exists>fs' api. RemoteApi_init fs config = Inr (fs', api)
           \<and> is_dir fs' (get_basedir config) \<and> is_dir fs' (api_dir api)"
proof -
  let ?b = "get_basedir config"
  have api: "path_div ?b ''api'' = ?b @ [''api'']"
    by (simp add: path_div_def path_segments_def)
  have "\<forall>k. files fs (rev (drop k (rev ?b))) = None"
    using assms(2) by (simp add: rev_drop)
  from mkdir_parents_creates [OF this] obtain fs1 where
    fs1: "mkdir_parents fs (rev ?b) = Inr fs1" "is_dir fs1 ?b"
    by auto
  with assms(1) show ?thesis
    by (simp add: RemoteApi_init_def Let_def api mkdir_def is_dir_def)
qed

text \<open>
  Claim C9. The API installer never creates the top-level base directory: when the
  configured base directory does not exist, setting up the installer fails rather than
  creating it; the installer creates only the project directories and what is below
  them. The constructor does not do this: it makes \<open>basedir / 'api'\<close> with
  \<open>parents=True\<close>, which makes the missing base directory as well. On a remote file
  system that has \<open>/home\<close> only, constructing the installer for the base directory
  \<open>/home/user/.cerise\<close> succeeds, and afterwards the base directory exists.
  \<open>_make_remote_project\<close>, which makes its directory without \<open>parents\<close>, does refuse
  when the API directory is missing.
\<close>

theorem RemoteApi_init_creates_missing_basedir:
  "\<not> is_dir example_fs_without_basedir (get_basedir example_config)
   \<and> RemoteApi_init example_fs_without_basedir example_config
       = Inr (\<lparr>dirs = {[''home'', ''user'', ''.cerise'', ''api''],
                       [''home'', ''user'', ''.cerise''], [''home'', ''user''], [''home'']},
                files = Map.empty\<rparr>,
              example_api)
   \<and> make_remote_project example_fs_without_basedir example_api ''projA''
       = Inl FileNotFoundError"
  by (simp add: RemoteApi_init_def make_remote_project_def mkdir_def is_dir_def path_exists_def
        example_fs_without_basedir_def example_config_def example_api_def
        path_div_def path_segments_def Let_def)

section \<open>Properties of the workflow translator\<close>










section \<open>Properties of macro substitution\<close>
















end
